theory Spec2Isabelle
  imports Complex_Main "HOL-Library.Multiset"
begin

section \<open>Data model\<close>

text \<open>
  The handlers of \<^verbatim>\<open>src/handlers/rag_search.py\<close> work on lists of Python dicts. A search
  result carries the keys \<^verbatim>\<open>uuid\<close>, \<^verbatim>\<open>title\<close>, \<^verbatim>\<open>link\<close> and \<^verbatim>\<open>snippet\<close>. Two keys may be
  absent: \<^verbatim>\<open>content\<close>, which \<^verbatim>\<open>filter_content\<close> tests with \<^verbatim>\<open>in\<close>, and \<^verbatim>\<open>score\<close>, which
  the search provider may leave out and which the code reads without a guard: reading
  it on a dict that has none raises \<^verbatim>\<open>KeyError\<close>. The dicts of a list are distinct objects,
  so a loop that writes to each dict is a \<open>map\<close> over the list. Scores are finite floats, compared only with \<^verbatim>\<open>>=\<close> and by
  \<^verbatim>\<open>sorted\<close>; they are modelled as reals (no NaN). Strings are lists of characters, one
  element per code point, so that \<^verbatim>\<open>len\<close> is \<open>length\<close>.
\<close>

record search_result =
  uuid :: string
  title :: string
  link :: string
  snippet :: string
  score :: "real option"
  content :: "string option"

text \<open>
  A match returned by \<^verbatim>\<open>query_results\<close>: the handlers read its keys \<^verbatim>\<open>uuid\<close>, \<^verbatim>\<open>score\<close>
  and \<^verbatim>\<open>content\<close>.
\<close>

record match_result =
  match_uuid :: string
  match_score :: real
  match_content :: string

section \<open>Exceptions and collaborators\<close>

text \<open>
  The handlers distinguish two classes of exception: \<^verbatim>\<open>except Exception\<close> catches every
  exception, \<^verbatim>\<open>except aiohttp.ClientResponseError\<close> only that subclass. The string is the
  message that \<^verbatim>\<open>f"{e}"\<close> prints. What is raised is an instance of \<^verbatim>\<open>Exception\<close>:
  cancellation and interrupts, which no handler here catches, are outside the model.
\<close>

datatype exn = Exception string | ClientResponseError string

fun str :: "exn \<Rightarrow> string" where
  "str (Exception msg) = msg"
| "str (ClientResponseError msg) = msg"

text \<open>
  \<^verbatim>\<open>KeyError\<close>, raised by \<^verbatim>\<open>d[key]\<close> on a dict without the key, is an \<^verbatim>\<open>Exception\<close>; its
  message is the key between single quotes.
\<close>

definition KeyError :: "string \<Rightarrow> exn" where
  "KeyError key = Exception ([CHR 0x27] @ key @ [CHR 0x27])"

text \<open>The dict \<^verbatim>\<open>params\<close> that \<^verbatim>\<open>search\<close> builds, with its optional key \<^verbatim>\<open>hl\<close>.\<close>

record search_params =
  param_q :: string
  param_num :: int
  param_hl :: "string option"

text \<open>
  What \<^verbatim>\<open>session.get(url)\<close> hands to \<^verbatim>\<open>fetch_url\<close>: \<^verbatim>\<open>raise_for_status()\<close> raises or not,
  \<^verbatim>\<open>await response.text()\<close> raises or returns the page.
\<close>

record response =
  raise_for_status :: "exn option"
  response_text :: "exn + string"

text \<open>
  Modelled from the spec: the collaborators are not part of the sources. They are
  \<^verbatim>\<open>get_search_results\<close> (services.search.serper), \<^verbatim>\<open>store_results\<close> and \<^verbatim>\<open>query_results\<close>
  (services.document), whose interfaces the spec gives (a search from parameters to an
  ordered sequence of results, a store from candidates to an index handle, a query from
  handle, text, score threshold and cap to a sequence of matches, each failing with an
  opaque error), the HTTP session of aiohttp, \<^verbatim>\<open>HTML2Text.handle\<close> and the process
  environment. They are parameters of the model: each is an arbitrary function that
  returns a value or raises, and none of them writes to the result dicts it is given.
  \<open>'i\<close> is the type of the index handle.
\<close>

record 'i env =
  getenv_AUTH_API_KEY :: "string option"
  get_search_results :: "search_params \<Rightarrow> exn + search_result list"
  store_results :: "search_result list \<Rightarrow> exn + 'i"
  query_results :: "'i \<Rightarrow> string \<Rightarrow> real \<Rightarrow> int \<Rightarrow> exn + match_result list"
  session_get :: "string \<Rightarrow> exn + response"
  html2text_handle :: "string \<Rightarrow> exn + string"

text \<open>
  Every call of a collaborator is recorded, in program order, so that "no collaborator is
  called" is a statement about the model: each function below returns its value together
  with the list of calls it made.
\<close>

datatype call =
    GetSearchResults search_params
  | StoreResults "search_result list"
  | QueryResults string real int
  | SessionGet string

section \<open>Regular expressions: the subset of Python's \<^verbatim>\<open>re\<close> that \<^verbatim>\<open>fetch_markdown\<close> uses\<close>

text \<open>
  \<^verbatim>\<open>re.sub(r'\n{2,n}', '\n', markdown)\<close> is a call into the standard library. The model
  covers literal characters, the escape \<^verbatim>\<open>\n\<close> and the counted repeat \<^verbatim>\<open>{m,n}\<close> of a
  literal, parsed the way CPython's \<^verbatim>\<open>sre_parse\<close> parses them: after \<^verbatim>\<open>{\<close> it reads digits,
  an optional comma and more digits, and when no \<^verbatim>\<open>}\<close> follows, the brace is a literal
  character and parsing resumes right after it. A pattern outside this subset is
  rejected.
\<close>

datatype item = Literal char | Max_Repeat nat "nat option" char

definition is_digit :: "char \<Rightarrow> bool" where
  "is_digit c = (c \<in> set ''0123456789'')"

definition int_of_digits :: "string \<Rightarrow> nat" where
  "int_of_digits ds = foldl (\<lambda>n c. 10 * n + (of_char c - 48)) 0 ds"

text \<open>
  The text after an opening brace: \<open>Some (lo, hi, rest)\<close> when it reads
  \<^verbatim>\<open>digits}\<close> or \<^verbatim>\<open>digits,digits}\<close> (either run of digits may be empty), \<open>None\<close> otherwise.
\<close>

definition repeat_bounds :: "string \<Rightarrow> (string \<times> string \<times> string) option" where
  "repeat_bounds source =
     (let lo = takeWhile is_digit source;
          after_lo = dropWhile is_digit source;
          hi = (if take 1 after_lo = '','' then takeWhile is_digit (tl after_lo) else lo);
          after_hi = (if take 1 after_lo = '','' then dropWhile is_digit (tl after_lo) else after_lo)
      in if take 1 after_hi = ''}'' then Some (lo, hi, tl after_hi) else None)"

lemma repeat_bounds_length:
  "repeat_bounds source = Some (lo, hi, rest) \<Longrightarrow> length rest \<le> length source"
proof -
  have a: "length (dropWhile is_digit source) \<le> length source"
    by (rule length_dropWhile_le)
  have b: "length (dropWhile is_digit (tl (dropWhile is_digit source))) \<le> length source"
    using length_dropWhile_le [of is_digit "tl (dropWhile is_digit source)"] a by simp
  assume "repeat_bounds source = Some (lo, hi, rest)"
  then show ?thesis
    using a b by (auto simp: repeat_bounds_def Let_def split: if_splits)
qed

function sre_parse :: "string \<Rightarrow> item list \<Rightarrow> exn + item list" where
  "sre_parse [] subpattern = Inr subpattern"
| "sre_parse (this # source) subpattern =
     (if this = CHR 0x5C then
        (case source of
           [] \<Rightarrow> Inl (Exception ''bad escape (end of pattern)'')
         | c # source' \<Rightarrow>
             if c = CHR ''n'' then sre_parse source' (subpattern @ [Literal (CHR 0x0A)])
             else Inl (Exception ''escape outside the modelled subset''))
      else if this = CHR ''{'' then
        (if take 1 source = ''}'' then sre_parse source (subpattern @ [Literal this])
         else
           (case repeat_bounds source of
              None \<Rightarrow> sre_parse source (subpattern @ [Literal this])
            | Some (lo, hi, rest) \<Rightarrow>
                (let min_count = (if lo = [] then 0 else int_of_digits lo);
                     max_count = (if hi = [] then None else Some (int_of_digits hi))
                 in if (case max_count of None \<Rightarrow> False | Some m \<Rightarrow> m < min_count)
                    then Inl (Exception ''min repeat greater than max repeat'')
                    else if subpattern = [] then Inl (Exception ''nothing to repeat'')
                    else
                      (case last subpattern of
                         Max_Repeat _ _ _ \<Rightarrow> Inl (Exception ''multiple repeat'')
                       | Literal c \<Rightarrow>
                           sre_parse rest (butlast subpattern @ [Max_Repeat min_count max_count c])))))
      else if this \<in> set ''*+?.[()|^$'' then Inl (Exception ''syntax outside the modelled subset'')
      else sre_parse source (subpattern @ [Literal this]))"
  by pat_completeness auto
termination
  by (relation "measure (\<lambda>(source, subpattern). length source)")
     (auto dest: repeat_bounds_length)

text \<open>
  Matching at the start of \<open>s\<close>: the number of characters the pattern consumes, the
  repeats greedy (the largest count first), or \<open>None\<close> when it does not match there.
\<close>

fun first_some :: "'a option list \<Rightarrow> 'a option" where
  "first_some [] = None"
| "first_some (None # xs) = first_some xs"
| "first_some (Some x # xs) = Some x"

fun sre_match :: "item list \<Rightarrow> string \<Rightarrow> nat option" where
  "sre_match [] s = Some 0"
| "sre_match (Literal c # items) s =
     (case s of
        [] \<Rightarrow> None
      | x # xs \<Rightarrow> if x = c then map_option Suc (sre_match items xs) else None)"
| "sre_match (Max_Repeat lo hi c # items) s =
     (let avail = length (takeWhile (\<lambda>x. x = c) s);
          top = (case hi of None \<Rightarrow> avail | Some h \<Rightarrow> min h avail)
      in first_some (map (\<lambda>k. map_option (\<lambda>n. k + n) (sre_match items (drop k s)))
                         (rev [lo..<Suc top])))"

lemma first_some_in:
  "first_some xs = Some y \<Longrightarrow> Some y \<in> set xs"
  by (induction xs rule: first_some.induct) auto

lemma sre_match_length:
  "sre_match items s = Some n \<Longrightarrow> n \<le> length s"
proof (induction items s arbitrary: n rule: sre_match.induct)
  case (1 s)
  then show ?case by simp
next
  case (2 c items s)
  then show ?case by (auto split: list.splits if_splits)
next
  case (3 lo hi c items s)
  define top where "top = (case hi of None \<Rightarrow> length (takeWhile (\<lambda>x. x = c) s)
                           | Some h \<Rightarrow> min h (length (takeWhile (\<lambda>x. x = c) s)))"
  have top: "top \<le> length s"
    using length_takeWhile_le [of "\<lambda>x. x = c" s]
    by (auto simp: top_def split: option.splits)
  from "3.prems" have "Some n \<in> set (map (\<lambda>k. map_option (\<lambda>n. k + n) (sre_match items (drop k s)))
                         (rev [lo..<Suc top]))"
    by (auto simp: top_def Let_def dest!: first_some_in)
  then obtain k where kmem: "k \<in> set (rev [lo..<Suc top])"
    and kn: "Some n = map_option (\<lambda>n. k + n) (sre_match items (drop k s))"
    unfolding set_map by blast
  from kmem have k: "lo \<le> k" "k \<le> top"
    by auto
  from kn obtain m where m: "sre_match items (drop k s) = Some m" and n: "n = k + m"
    by (cases "sre_match items (drop k s)") auto
  have "m \<le> length (drop k s)"
    using "3.IH" [of "length (takeWhile (\<lambda>x. x = c) s)" top k m] kmem m
    unfolding top_def by simp
  with k top n show ?case by simp
qed

text \<open>
  \<^verbatim>\<open>re.sub\<close>: the leftmost matches, left to right, each replaced by \<open>repl\<close>. After an
  empty match the next match may not be empty at the same position (\<open>must_advance\<close>).
\<close>

function sub_loop :: "item list \<Rightarrow> string \<Rightarrow> bool \<Rightarrow> string \<Rightarrow> string" where
  "sub_loop items repl must_advance s =
     (case sre_match items s of
        None \<Rightarrow> (case s of [] \<Rightarrow> [] | x # xs \<Rightarrow> x # sub_loop items repl False xs)
      | Some n \<Rightarrow>
          if 0 < n then repl @ sub_loop items repl False (drop n s)
          else if \<not> must_advance then repl @ sub_loop items repl True s
          else (case s of [] \<Rightarrow> [] | x # xs \<Rightarrow> x # sub_loop items repl False xs))"
  by pat_completeness auto
termination
  by (relation "measure (\<lambda>(items, repl, must_advance, s).
                   2 * length s + (if must_advance then 0 else 1))")
     (auto dest: sre_match_length)

definition re_sub :: "string \<Rightarrow> string \<Rightarrow> string \<Rightarrow> exn + string" where
  "re_sub pattern repl s =
     (case sre_parse pattern [] of
        Inl e \<Rightarrow> Inl e
      | Inr items \<Rightarrow> Inr (sub_loop items repl False s))"

section \<open>Content fetcher and batch fetch (\<^verbatim>\<open>src/services/web.py\<close>)\<close>

text \<open>
  \<^verbatim>\<open>fetch_url\<close>: \<^verbatim>\<open>session.get(url)\<close> is entered outside the \<^verbatim>\<open>try\<close>, so its exception leaves
  the function; a bad status or a failing \<^verbatim>\<open>response.text()\<close> is caught and gives \<^verbatim>\<open>""\<close>.
\<close>

definition fetch_url :: "'i env \<Rightarrow> string \<Rightarrow> (exn + string) \<times> call list" where
  "fetch_url env url =
     ((case session_get env url of
         Inl e \<Rightarrow> Inl e
       | Inr response \<Rightarrow>
           (case raise_for_status response of
              Some e \<Rightarrow> Inr []
            | None \<Rightarrow>
                (case response_text response of
                   Inl e \<Rightarrow> Inr []
                 | Inr html \<Rightarrow> Inr html))),
      [SessionGet url])"

definition html_to_markdown :: "'i env \<Rightarrow> string \<Rightarrow> string" where
  "html_to_markdown env html =
     (case html2text_handle env html of
        Inl e \<Rightarrow> []
      | Inr markdown \<Rightarrow> markdown)"

text \<open>The raw string \<^verbatim>\<open>r'\n{2,n}'\<close>: a backslash, \<^verbatim>\<open>n\<close>, and the five characters \<^verbatim>\<open>{2,n}\<close>.\<close>

definition blank_lines_pattern :: string where
  "blank_lines_pattern = CHR 0x5C # ''n{2,n}''"

definition fetch_markdown :: "'i env \<Rightarrow> string \<Rightarrow> (exn + string \<times> string) \<times> call list" where
  "fetch_markdown env url =
     (case fetch_url env url of
        (Inl e, calls) \<Rightarrow> (Inr (url, []), calls)
      | (Inr html, calls) \<Rightarrow>
          (case re_sub blank_lines_pattern [CHR 0x0A] (html_to_markdown env html) of
             Inl e \<Rightarrow> (Inr (url, []), calls)
           | Inr markdown \<Rightarrow> (Inr (url, markdown), calls)))"

text \<open>
  \<^verbatim>\<open>asyncio.gather(*tasks, return_exceptions=False)\<close>: the results in the order of the
  tasks, or the exception of a task that raised.
\<close>

fun gather :: "(exn + 'a) list \<Rightarrow> exn + 'a list" where
  "gather [] = Inr []"
| "gather (Inl e # tasks) = Inl e"
| "gather (Inr x # tasks) =
     (case gather tasks of
        Inl e \<Rightarrow> Inl e
      | Inr xs \<Rightarrow> Inr (x # xs))"

text \<open>
  \<^verbatim>\<open>batch_fetch_urls\<close>: one task per URL, gathered; a \<^verbatim>\<open>ClientResponseError\<close> that reaches
  the function gives the empty list, any other exception leaves it. Opening and closing
  the client session has no failure of its own in the model.
\<close>

definition batch_fetch_urls :: "'i env \<Rightarrow> string list \<Rightarrow> (exn + (string \<times> string) list) \<times> call list" where
  "batch_fetch_urls env urls =
     (let tasks = map (fetch_markdown env) urls
      in ((case gather (map fst tasks) of
             Inl (ClientResponseError msg) \<Rightarrow> Inr []
           | Inl (Exception msg) \<Rightarrow> Inl (Exception msg)
           | Inr results \<Rightarrow> Inr results),
          concat (map snd tasks)))"

section \<open>The stages (\<^verbatim>\<open>src/handlers/rag_search.py\<close>)\<close>

text \<open>
  The stages write to the result dicts in place. A stage therefore returns two things:
  what the call returns or raises, and the caller's list as the call leaves it. The
  orchestrator keeps its own variable on an exception, that is, the second component.
\<close>

type_synonym stage_result = "(exn + search_result list) \<times> search_result list"

definition search :: "'i env \<Rightarrow> string \<Rightarrow> int \<Rightarrow> string \<Rightarrow> (exn + search_result list) \<times> call list" where
  "search env query num locale_code =
     (let params = \<lparr>param_q = query, param_num = num,
                     param_hl = (if locale_code \<noteq> [] then Some locale_code else None)\<rparr>
      in (get_search_results env params, [GetSearchResults params]))"

subsection \<open>Rerank\<close>

definition score_maps :: "match_result list \<Rightarrow> (string \<rightharpoonup> real)" where
  "score_maps match_results =
     foldl (\<lambda>m result. m(match_uuid result \<mapsto> match_score result)) Map.empty match_results"

definition set_score :: "(string \<rightharpoonup> real) \<Rightarrow> search_result \<Rightarrow> search_result" where
  "set_score scores result =
     (case scores (uuid result) of
        None \<Rightarrow> result
      | Some s \<Rightarrow> result\<lparr>score := Some s\<rparr>)"

text \<open>
  \<^verbatim>\<open>sorted(xs, key=..., reverse=True)\<close>: CPython reverses the list, sorts it with its stable
  ascending sort and reverses the result. \<open>sort_key\<close> is a stable ascending sort, and a
  stable sort has one result only.
\<close>

definition sorted_reverse :: "('a \<Rightarrow> 'k::linorder) \<Rightarrow> 'a list \<Rightarrow> 'a list" where
  "sorted_reverse key xs = rev (sort_key key (rev xs))"

text \<open>
  \<^verbatim>\<open>key=lambda x: (x['score'])\<close>: the sort first computes the key of every element, in
  list order, and the first dict without a score raises \<^verbatim>\<open>KeyError\<close>; only then are the
  elements sorted by their keys.
\<close>

fun score_keys :: "search_result list \<Rightarrow> exn + (real \<times> search_result) list" where
  "score_keys [] = Inr []"
| "score_keys (x # xs) =
     (case score x of
        None \<Rightarrow> Inl (KeyError ''score'')
      | Some k \<Rightarrow>
          (case score_keys xs of
             Inl e \<Rightarrow> Inl e
           | Inr keyed \<Rightarrow> Inr ((k, x) # keyed)))"

definition sorted_by_score :: "search_result list \<Rightarrow> exn + search_result list" where
  "sorted_by_score xs =
     (case score_keys xs of
        Inl e \<Rightarrow> Inl e
      | Inr keyed \<Rightarrow> Inr (map snd (sorted_reverse fst keyed)))"

definition reranking :: "'i env \<Rightarrow> search_result list \<Rightarrow> string \<Rightarrow> stage_result \<times> call list" where
  "reranking env search_results query =
     (case store_results env search_results of
        Inl e \<Rightarrow> ((Inl e, search_results), [StoreResults search_results])
      | Inr index \<Rightarrow>
          (case query_results env index query 0 (int (length search_results)) of
             Inl e \<Rightarrow>
               ((Inl e, search_results),
                [StoreResults search_results, QueryResults query 0 (int (length search_results))])
           | Inr match_results \<Rightarrow>
               (let merged = map (set_score (score_maps match_results)) search_results
                in ((sorted_by_score merged, merged),
                    [StoreResults search_results,
                     QueryResults query 0 (int (length search_results))]))))"

subsection \<open>Detail-Fetch\<close>

text \<open>
  \<^verbatim>\<open>
  urls = []
  for res in search_results:
      if len(urls) > top_k:
          break
      if res["score"] >= min_score:
          urls.append(res["link"])
  \<close>
\<close>

fun select_urls ::
  "search_result list \<Rightarrow> real \<Rightarrow> int \<Rightarrow> string list \<Rightarrow> exn + string list" where
  "select_urls [] min_score top_k urls = Inr urls"
| "select_urls (res # rest) min_score top_k urls =
     (if int (length urls) > top_k then Inr urls
      else
        (case score res of
           None \<Rightarrow> Inl (KeyError ''score'')
         | Some s \<Rightarrow>
             if s \<ge> min_score then select_urls rest min_score top_k (urls @ [link res])
             else select_urls rest min_score top_k urls))"

definition detail_content_maps :: "(string \<times> string) list \<Rightarrow> (string \<rightharpoonup> string)" where
  "detail_content_maps details =
     foldl (\<lambda>m (url, page). m(url \<mapsto> page)) Map.empty details"

definition set_content_by_link :: "(string \<rightharpoonup> string) \<Rightarrow> search_result \<Rightarrow> search_result" where
  "set_content_by_link content_maps result =
     (case content_maps (link result) of
        None \<Rightarrow> result
      | Some c \<Rightarrow> result\<lparr>content := Some c\<rparr>)"

definition fetch_details :: "'i env \<Rightarrow> search_result list \<Rightarrow> real \<Rightarrow> int \<Rightarrow> stage_result \<times> call list" where
  "fetch_details env search_results min_score top_k =
     (case select_urls search_results min_score top_k [] of
        Inl e \<Rightarrow> ((Inl e, search_results), [])
      | Inr urls \<Rightarrow>
          (case batch_fetch_urls env urls of
             (Inl e, calls) \<Rightarrow> ((Inl e, search_results), calls)
           | (Inr details, calls) \<Rightarrow>
               (let updated = map (set_content_by_link (detail_content_maps details)) search_results
                in ((Inr updated, updated), calls))))"

subsection \<open>Filter\<close>

text \<open>
  \<^verbatim>\<open>
  content_maps = {}
  for result in match_results:
      if result["uuid"] not in content_maps:
          content_maps[result["uuid"]] = ""
      else:
          content_maps[result["uuid"]] += result["content"]
  \<close>
\<close>

definition accumulate_step :: "(string \<rightharpoonup> string) \<Rightarrow> match_result \<Rightarrow> (string \<rightharpoonup> string)" where
  "accumulate_step content_maps result =
     (case content_maps (match_uuid result) of
        None \<Rightarrow> content_maps(match_uuid result \<mapsto> [])
      | Some acc \<Rightarrow> content_maps(match_uuid result \<mapsto> acc @ match_content result))"

definition filter_content_maps :: "match_result list \<Rightarrow> (string \<rightharpoonup> string)" where
  "filter_content_maps match_results = foldl accumulate_step Map.empty match_results"

text \<open>
  \<^verbatim>\<open>
  for result in search_results:
      if result["uuid"] in content_maps:
          result["content"] = content_maps[result["uuid"]]
  \<close>
\<close>

definition set_content_by_uuid :: "(string \<rightharpoonup> string) \<Rightarrow> search_result \<Rightarrow> search_result" where
  "set_content_by_uuid content_maps result =
     (case content_maps (uuid result) of
        None \<Rightarrow> result
      | Some c \<Rightarrow> result\<lparr>content := Some c\<rparr>)"

definition has_content :: "search_result \<Rightarrow> bool" where
  "has_content result =
     (case content result of
        None \<Rightarrow> False
      | Some c \<Rightarrow> length c > length (snippet result))"

definition filter_content ::
  "'i env \<Rightarrow> search_result list \<Rightarrow> string \<Rightarrow> real \<Rightarrow> int \<Rightarrow> stage_result \<times> call list" where
  "filter_content env search_results query filter_min_score filter_top_k =
     (let results_with_content = filter has_content search_results
      in case store_results env results_with_content of
           Inl e \<Rightarrow> ((Inl e, search_results), [StoreResults results_with_content])
         | Inr index \<Rightarrow>
             (case query_results env index query filter_min_score filter_top_k of
                Inl e \<Rightarrow>
                  ((Inl e, search_results),
                   [StoreResults results_with_content,
                    QueryResults query filter_min_score filter_top_k])
              | Inr match_results \<Rightarrow>
                  (let updated = map (set_content_by_uuid (filter_content_maps match_results))
                                     search_results
                   in ((Inr updated, updated),
                       [StoreResults results_with_content,
                        QueryResults query filter_min_score filter_top_k]))))"

section \<open>The orchestrator\<close>

text \<open>
  The request model \<^verbatim>\<open>RagSearchReq\<close>. The fields carry the prefix \<open>req_\<close> (\<^verbatim>\<open>req.query\<close> is
  \<open>req_query req\<close>). The numeric fields and the flags are modelled at their numeric and
  boolean types: an explicit \<^verbatim>\<open>null\<close> in one of them is outside the model.
\<close>

record rag_search_req =
  req_query :: string
  req_locale :: string
  req_search_n :: int
  req_search_provider :: string
  req_is_reranking :: bool
  req_is_detail :: bool
  req_detail_top_k :: int
  req_detail_min_score :: real
  req_is_filter :: bool
  req_filter_min_score :: real
  req_filter_top_k :: int

text \<open>
  Modelled from the spec: \<^verbatim>\<open>resp_err\<close> and \<^verbatim>\<open>resp_data\<close> of \<^verbatim>\<open>utils.resp\<close> are not part of the
  sources. The spec gives the response shape: on success an object containing the final
  ordered \<^verbatim>\<open>search_results\<close>, on failure an error object carrying a message.
\<close>

datatype resp = resp_err string | resp_data "search_result list"

text \<open>
  \<^verbatim>\<open>str.replace(old, new)\<close>: every occurrence of \<open>old\<close>, left to right, without overlap;
  with an empty \<open>old\<close>, \<open>new\<close> is put before every character and at the end.
\<close>

function replace_occurrences :: "string \<Rightarrow> string \<Rightarrow> string \<Rightarrow> string" where
  "replace_occurrences old new [] = []"
| "replace_occurrences old new (c # cs) =
     (if old \<noteq> [] \<and> take (length old) (c # cs) = old
      then new @ replace_occurrences old new (drop (length old) (c # cs))
      else c # replace_occurrences old new cs)"
  by pat_completeness auto
termination
  by (relation "measure (\<lambda>(old, new, s). length s)") auto

definition str_replace :: "string \<Rightarrow> string \<Rightarrow> string \<Rightarrow> string" where
  "str_replace old new s =
     (if old = [] then new @ concat (map (\<lambda>c. c # new) s)
      else replace_occurrences old new s)"

text \<open>
  \<^verbatim>\<open>
  apiKey = ""
  if authorization:
      apiKey = authorization.replace("Bearer ", "")
  \<close>
  The header is \<open>None\<close> when the request has none.
\<close>

definition apiKey :: "string option \<Rightarrow> string" where
  "apiKey authorization =
     (case authorization of
        None \<Rightarrow> []
      | Some a \<Rightarrow> if a \<noteq> [] then str_replace ''Bearer '' [] a else [])"

text \<open>
  The three optional stages as \<^verbatim>\<open>rag_search\<close> runs them: the flag, the call in a \<^verbatim>\<open>try\<close>,
  the assignment to \<^verbatim>\<open>search_results\<close> when the call returns, and the \<^verbatim>\<open>except\<close> that prints
  and goes on with the variable as it is.
\<close>

definition rerank_stage ::
  "'i env \<Rightarrow> rag_search_req \<Rightarrow> search_result list \<Rightarrow> search_result list \<times> call list" where
  "rerank_stage env req search_results =
     (if req_is_reranking req then
        (case reranking env search_results (req_query req) of
           ((Inr returned, left), calls) \<Rightarrow> (returned, calls)
         | ((Inl e, left), calls) \<Rightarrow> (left, calls))
      else (search_results, []))"

definition detail_stage ::
  "'i env \<Rightarrow> rag_search_req \<Rightarrow> search_result list \<Rightarrow> search_result list \<times> call list" where
  "detail_stage env req search_results =
     (if req_is_detail req then
        (case fetch_details env search_results (req_detail_min_score req) (req_detail_top_k req) of
           ((Inr returned, left), calls) \<Rightarrow> (returned, calls)
         | ((Inl e, left), calls) \<Rightarrow> (left, calls))
      else (search_results, []))"

definition filter_stage ::
  "'i env \<Rightarrow> rag_search_req \<Rightarrow> search_result list \<Rightarrow> search_result list \<times> call list" where
  "filter_stage env req search_results =
     (if req_is_filter req then
        (case filter_content env search_results (req_query req)
                (req_filter_min_score req) (req_filter_top_k req) of
           ((Inr returned, left), calls) \<Rightarrow> (returned, calls)
         | ((Inl e, left), calls) \<Rightarrow> (left, calls))
      else (search_results, []))"

definition rag_search :: "'i env \<Rightarrow> rag_search_req \<Rightarrow> string option \<Rightarrow> resp \<times> call list" where
  "rag_search env req authorization =
     (let authApiKey = getenv_AUTH_API_KEY env
      in if Some (apiKey authorization) \<noteq> authApiKey then (resp_err ''Access Denied'', [])
         else if req_query req = [] then (resp_err ''invalid params'', [])
         else
           (case search env (req_query req) (req_search_n req) (req_locale req) of
              (Inl e, calls1) \<Rightarrow> (resp_err (''get search results failed: '' @ str e), calls1)
            | (Inr results1, calls1) \<Rightarrow>
                (case rerank_stage env req results1 of
                   (results2, calls2) \<Rightarrow>
                     (case detail_stage env req results2 of
                        (results3, calls3) \<Rightarrow>
                          (case filter_stage env req results3 of
                             (results4, calls4) \<Rightarrow>
                               (resp_data results4, calls1 @ calls2 @ calls3 @ calls4))))))"

section \<open>Example inputs\<close>

definition example_results :: "search_result list" where
  "example_results =
     [\<lparr>uuid = ''u1'', title = ''First'', link = ''http://a'', snippet = ''one'',
       score = Some 0, content = None\<rparr>,
      \<lparr>uuid = ''u2'', title = ''Second'', link = ''http://b'', snippet = ''two'',
       score = Some 0, content = None\<rparr>,
      \<lparr>uuid = ''u3'', title = ''Third'', link = ''http://c'', snippet = ''three'',
       score = Some 0, content = None\<rparr>]"

text \<open>A converted page: two lines of text with an empty line between them.\<close>

definition example_page :: string where
  "example_page = ''full'' @ [CHR 0x0A, CHR 0x0A] @ ''text''"

definition example_matches :: "match_result list" where
  "example_matches =
     [\<lparr>match_uuid = ''u2'', match_score = 9 / 10, match_content = example_page\<rparr>]"

text \<open>
  An environment in which the search returns the three results, the index matches the
  second one, the page \<^verbatim>\<open>http://a\<close> cannot be reached and every other page converts to
  \<open>example_page\<close>.
\<close>

definition example_env :: "unit env" where
  "example_env =
     \<lparr>getenv_AUTH_API_KEY = Some ''secret'',
      get_search_results = (\<lambda>params. Inr example_results),
      store_results = (\<lambda>results. Inr ()),
      query_results = (\<lambda>index query min_score top_k. Inr example_matches),
      session_get = (\<lambda>url. if url = ''http://a'' then Inl (Exception ''connection refused'')
                           else Inr \<lparr>raise_for_status = None,
                                    response_text = Inr ''<p>full</p><p>text</p>''\<rparr>),
      html2text_handle = (\<lambda>html. Inr example_page)\<rparr>"

text \<open>The same environment with an index that cannot be built.\<close>

definition example_env_no_index :: "unit env" where
  "example_env_no_index =
     example_env\<lparr>store_results := (\<lambda>results. Inl (Exception ''index unavailable''))\<rparr>"

text \<open>The three results as Detail-Fetch leaves them after fetching the first two links.\<close>

definition example_detailed :: "search_result list" where
  "example_detailed =
     [\<lparr>uuid = ''u1'', title = ''First'', link = ''http://a'', snippet = ''one'',
       score = Some 0, content = Some []\<rparr>,
      \<lparr>uuid = ''u2'', title = ''Second'', link = ''http://b'', snippet = ''two'',
       score = Some 0, content = Some example_page\<rparr>,
      \<lparr>uuid = ''u3'', title = ''Third'', link = ''http://c'', snippet = ''three'',
       score = Some 0, content = None\<rparr>]"

text \<open>
  Results of which the first has no score, and an environment whose search returns them.
\<close>

definition example_unscored :: "search_result list" where
  "example_unscored =
     [\<lparr>uuid = ''u1'', title = ''First'', link = ''http://a'', snippet = ''one'',
       score = None, content = None\<rparr>,
      \<lparr>uuid = ''u2'', title = ''Second'', link = ''http://b'', snippet = ''two'',
       score = Some 0, content = None\<rparr>,
      \<lparr>uuid = ''u3'', title = ''Third'', link = ''http://c'', snippet = ''three'',
       score = Some 0, content = None\<rparr>]"

definition example_env_unscored :: "unit env" where
  "example_env_unscored =
     example_env\<lparr>get_search_results := (\<lambda>params. Inr example_unscored)\<rparr>"


definition example_req :: rag_search_req where
  "example_req =
     \<lparr>req_query = ''who'', req_locale = [], req_search_n = 10, req_search_provider = ''google'',
      req_is_reranking = True, req_is_detail = False, req_detail_top_k = 6,
      req_detail_min_score = 7 / 10, req_is_filter = False, req_filter_min_score = 8 / 10,
      req_filter_top_k = 6\<rparr>"

section \<open>Filter: what the accumulation computes\<close>

lemma foldl_accumulate_step:
  "foldl accumulate_step m match_results u =
     (case m u of
        Some acc \<Rightarrow>
          Some (acc @ concat (map match_content (filter (\<lambda>r. match_uuid r = u) match_results)))
      | None \<Rightarrow>
          (case filter (\<lambda>r. match_uuid r = u) match_results of
             [] \<Rightarrow> None
           | r # rest \<Rightarrow> Some (concat (map match_content rest))))"
proof (induction match_results arbitrary: m)
  case Nil
  then show ?case by (simp split: option.splits)
next
  case (Cons r match_results)
  have "foldl accumulate_step m (r # match_results) u =
          foldl accumulate_step (accumulate_step m r) match_results u"
    by simp
  also have "\<dots> =
     (case accumulate_step m r u of
        Some acc \<Rightarrow>
          Some (acc @ concat (map match_content (filter (\<lambda>r. match_uuid r = u) match_results)))
      | None \<Rightarrow>
          (case filter (\<lambda>r. match_uuid r = u) match_results of
             [] \<Rightarrow> None
           | r # rest \<Rightarrow> Some (concat (map match_content rest))))"
    by (rule Cons.IH)
  also have "\<dots> =
     (case m u of
        Some acc \<Rightarrow>
          Some (acc @ concat (map match_content
                  (filter (\<lambda>r. match_uuid r = u) (r # match_results))))
      | None \<Rightarrow>
          (case filter (\<lambda>r. match_uuid r = u) (r # match_results) of
             [] \<Rightarrow> None
           | r # rest \<Rightarrow> Some (concat (map match_content rest))))"
    by (auto simp: accumulate_step_def split: option.splits)
  finally show ?case .
qed

lemma filter_content_maps_eq:
  "filter_content_maps match_results u =
     (case filter (\<lambda>r. match_uuid r = u) match_results of
        [] \<Rightarrow> None
      | r # rest \<Rightarrow> Some (concat (map match_content rest)))"
  by (simp add: filter_content_maps_def foldl_accumulate_step)

text \<open>
  C1. The claim: an identifier that appears once in the match results is stored with that
  match's content, and that content is written onto the matching result. The code stores
  the empty string at the first match of an identifier and appends only from the second
  match on. In the example the index returns one match, for \<open>u2\<close>, with the content
  \<open>example_page\<close>: the map holds the empty string for \<open>u2\<close>, and Filter writes the empty
  string over the fetched content of the second result.
\<close>

theorem filter_single_match_stores_empty_content:
  "filter_content_maps example_matches ''u2'' = Some [] \<and>
   fst (fst (filter_content example_env example_detailed ''who'' (8 / 10) 6)) =
     Inr [\<lparr>uuid = ''u1'', title = ''First'', link = ''http://a'', snippet = ''one'',
           score = Some 0, content = Some []\<rparr>,
          \<lparr>uuid = ''u2'', title = ''Second'', link = ''http://b'', snippet = ''two'',
           score = Some 0, content = Some []\<rparr>,
          \<lparr>uuid = ''u3'', title = ''Third'', link = ''http://c'', snippet = ''three'',
           score = Some 0, content = None\<rparr>]"
  by (simp add: filter_content_maps_eq example_matches_def filter_content_def example_env_def
      example_detailed_def example_page_def has_content_def set_content_by_uuid_def Let_def)

section \<open>Content normalization: what the substitution computes\<close>

lemma blank_lines_pattern_literal:
  "sre_parse blank_lines_pattern [] =
     Inr [Literal (CHR 0x0A), Literal CHR ''{'', Literal CHR ''2'', Literal CHR '','',
          Literal CHR ''n'', Literal CHR ''}'']"
  by (simp add: blank_lines_pattern_def repeat_bounds_def is_digit_def)

text \<open>A text without an opening brace is returned as it is, whatever its line breaks.\<close>

lemma sre_match_blank_lines_brace:
  assumes "sre_match [Literal (CHR 0x0A), Literal CHR ''{'', Literal CHR ''2'', Literal CHR '','',
                      Literal CHR ''n'', Literal CHR ''}''] s = Some n"
  shows "CHR ''{'' \<in> set s"
proof (cases s)
  case Nil
  with assms show ?thesis by simp
next
  case (Cons x xs)
  show ?thesis
  proof (cases xs)
    case Nil
    with assms Cons show ?thesis by (simp split: if_splits)
  next
    case (Cons y ys)
    with assms \<open>s = x # xs\<close> show ?thesis
      by (simp split: if_splits)
  qed
qed

lemma sub_loop_blank_lines_no_brace:
  assumes "CHR ''{'' \<notin> set s"
  shows "sub_loop [Literal (CHR 0x0A), Literal CHR ''{'', Literal CHR ''2'', Literal CHR '','',
                   Literal CHR ''n'', Literal CHR ''}''] repl False s = s"
  using assms
proof (induction s)
  case Nil
  then show ?case by simp
next
  case (Cons x xs)
  have none: "sre_match [Literal (CHR 0x0A), Literal CHR ''{'', Literal CHR ''2'', Literal CHR '','',
                         Literal CHR ''n'', Literal CHR ''}''] (x # xs) = None"
  proof (cases "sre_match [Literal (CHR 0x0A), Literal CHR ''{'', Literal CHR ''2'',
                           Literal CHR '','', Literal CHR ''n'', Literal CHR ''}''] (x # xs)")
    case None
    then show ?thesis .
  next
    case (Some n)
    from sre_match_blank_lines_brace [OF Some] Cons.prems show ?thesis
      by simp
  qed
  from Cons have rest: "sub_loop [Literal (CHR 0x0A), Literal CHR ''{'', Literal CHR ''2'',
                                  Literal CHR '','', Literal CHR ''n'', Literal CHR ''}'']
                          repl False xs = xs"
    by simp
  show ?case
    by (subst sub_loop.simps) (simp only: none rest option.case list.case)
qed

lemma re_sub_blank_lines_no_brace:
  "CHR ''{'' \<notin> set markdown \<Longrightarrow>
     re_sub blank_lines_pattern [CHR 0x0A] markdown = Inr markdown"
  by (simp add: re_sub_def blank_lines_pattern_literal sub_loop_blank_lines_no_brace
      del: sub_loop.simps)

text \<open>
  C2. The claim: every run of two or more line breaks in the converted text is collapsed
  to one line break. The pattern \<^verbatim>\<open>\n{2,n}\<close> is no counted repeat (\<^verbatim>\<open>n\<close> is not a digit), so it
  matches a line break followed by the five characters \<^verbatim>\<open>{2,n}\<close> only: the page
  \<^verbatim>\<open>http://b\<close> of the example converts to \<open>example_page\<close> and is returned with its two
  consecutive line breaks.
\<close>

theorem fetch_markdown_keeps_blank_lines:
  "fst (fetch_markdown example_env ''http://b'') =
     Inr (''http://b'', ''full'' @ [CHR 0x0A, CHR 0x0A] @ ''text'')"
  by (simp add: fetch_markdown_def fetch_url_def example_env_def example_page_def
      html_to_markdown_def re_sub_def blank_lines_pattern_literal Let_def)


section \<open>Detail-Fetch: candidate selection\<close>





section \<open>Rerank\<close>

lemma set_score_other_fields:
  "(set_score scores result)\<lparr>score := None\<rparr> = result\<lparr>score := None\<rparr>"
  by (simp add: set_score_def split: option.splits)

lemma sorted_reverse_mset: "mset (sorted_reverse key xs) = mset xs"
  by (simp add: sorted_reverse_def)

lemma sorted_reverse_descending:
  "sorted_wrt (\<lambda>a b. key b \<le> key a) (sorted_reverse key xs)"
proof -
  have "sorted (map key (sort_key key (rev xs)))"
    by (rule sorted_sort_key)
  then have "sorted_wrt (\<lambda>a b. key a \<le> key b) (sort_key key (rev xs))"
    by (simp add: sorted_map)
  then show ?thesis
    by (simp add: sorted_reverse_def sorted_wrt_rev)
qed

lemma sorted_reverse_stable:
  "filter (\<lambda>x. key x = k) (sorted_reverse key xs) = filter (\<lambda>x. key x = k) xs"
proof -
  have "filter (\<lambda>x. key x = k) (sorted_reverse key xs) =
        rev (filter (\<lambda>x. key x = k) (sort_key key (rev xs)))"
    by (simp add: sorted_reverse_def rev_filter)
  also have "\<dots> = rev (filter (\<lambda>x. key x = k) (rev xs))"
    by (simp only: sort_key_stable)
  also have "\<dots> = filter (\<lambda>x. key x = k) xs"
    by (simp add: rev_filter)
  finally show ?thesis .
qed

lemma score_keys_returns:
  assumes "score_keys xs = Inr keyed"
  shows "map snd keyed = xs \<and> (\<forall>p\<in>set keyed. score (snd p) = Some (fst p))"
  using assms
proof (induction xs arbitrary: keyed)
  case Nil
  then show ?case by simp
next
  case (Cons x xs)
  from Cons.prems obtain k rest where
    k: "score x = Some k" and rest: "score_keys xs = Inr rest" and keyed: "keyed = (k, x) # rest"
    by (auto split: option.splits sum.splits)
  from Cons.IH [OF rest] k keyed show ?case
    by simp
qed

lemma score_keys_raises:
  assumes "score_keys xs = Inl e"
  shows "e = KeyError ''score'' \<and> (\<exists>x\<in>set xs. score x = None)"
  using assms
proof (induction xs)
  case Nil
  then show ?case by simp
next
  case (Cons x xs)
  then show ?case
    by (auto split: option.splits sum.splits)
qed

lemma sorted_by_score_returns:
  assumes "sorted_by_score xs = Inr returned"
  shows "mset returned = mset xs"
    and "\<exists>keys. map score returned = map Some keys \<and> sorted_wrt (\<lambda>a b. b \<le> a) keys"
    and "filter (\<lambda>r. score r = s) returned = filter (\<lambda>r. score r = s) xs"
proof -
  from assms obtain keyed where
    keyed: "score_keys xs = Inr keyed" and
    returned: "returned = map snd (sorted_reverse fst keyed)"
    by (auto simp: sorted_by_score_def split: sum.splits)
  from score_keys_returns [OF keyed] have
    xs: "map snd keyed = xs" and
    keys: "\<forall>p\<in>set keyed. score (snd p) = Some (fst p)"
    by simp_all
  have same_set: "set (sorted_reverse fst keyed) = set keyed"
    using sorted_reverse_mset [of fst keyed] by (metis set_mset_mset)
  have "mset returned = image_mset snd (mset (sorted_reverse fst keyed))"
    by (simp add: returned)
  also have "\<dots> = image_mset snd (mset keyed)"
    by (simp only: sorted_reverse_mset)
  also have "\<dots> = mset (map snd keyed)"
    by simp
  finally show "mset returned = mset xs"
    by (simp only: xs)
  have scores: "map score returned = map Some (map fst (sorted_reverse fst keyed))"
    using keys same_set by (simp add: returned)
  have "sorted_wrt (\<lambda>a b. b \<le> a) (map fst (sorted_reverse fst keyed))"
    using sorted_reverse_descending [of fst keyed] by (simp add: sorted_wrt_map)
  with scores show "\<exists>keys. map score returned = map Some keys \<and> sorted_wrt (\<lambda>a b. b \<le> a) keys"
    by blast
  have by_key: "filter (\<lambda>r. score r = s) (map snd ps) =
                map snd (filter (\<lambda>p. Some (fst p) = s) ps)"
    if "\<forall>p\<in>set ps. score (snd p) = Some (fst p)" for ps
    using that by (induction ps) auto
  have stable: "filter (\<lambda>p. Some (fst p) = s) (sorted_reverse fst keyed) =
                filter (\<lambda>p. Some (fst p) = s) keyed"
  proof (cases s)
    case None
    then show ?thesis by simp
  next
    case (Some k)
    then show ?thesis
      using sorted_reverse_stable [of fst k keyed] by simp
  qed
  have "filter (\<lambda>r. score r = s) returned =
        map snd (filter (\<lambda>p. Some (fst p) = s) (sorted_reverse fst keyed))"
    unfolding returned using keys same_set by (intro by_key) simp
  also have "\<dots> = map snd (filter (\<lambda>p. Some (fst p) = s) keyed)"
    by (simp only: stable)
  also have "\<dots> = filter (\<lambda>r. score r = s) (map snd keyed)"
    using by_key [OF keys] by simp
  finally show "filter (\<lambda>r. score r = s) returned = filter (\<lambda>r. score r = s) xs"
    by (simp only: xs)
qed

lemma reranking_returns:
  assumes "fst (reranking env search_results query) = (Inr returned, left)"
  shows "\<exists>match_results.
           left = map (set_score (score_maps match_results)) search_results \<and>
           sorted_by_score left = Inr returned"
  using assms
  by (auto simp: reranking_def Let_def split: sum.splits)

text \<open>
  C4. When Rerank returns, the caller's list \<open>left\<close> is the input with only score fields
  rewritten, and the returned list is a permutation of it (so of the input, up to
  scores), sorted by score descending, in which the results of equal score keep their
  original relative order.
\<close>

theorem reranking_sorted_permutation:
  assumes "fst (reranking env search_results query) = (Inr returned, left)"
  shows "mset returned = mset left \<and>
         map (\<lambda>r. r\<lparr>score := None\<rparr>) left = map (\<lambda>r. r\<lparr>score := None\<rparr>) search_results \<and>
         mset (map (\<lambda>r. r\<lparr>score := None\<rparr>) returned) =
           mset (map (\<lambda>r. r\<lparr>score := None\<rparr>) search_results) \<and>
         (\<exists>keys. map score returned = map Some keys \<and> sorted_wrt (\<lambda>a b. b \<le> a) keys) \<and>
         (\<forall>s. filter (\<lambda>r. score r = s) returned = filter (\<lambda>r. score r = s) left)"
proof -
  from reranking_returns [OF assms] obtain match_results where
    left: "left = map (set_score (score_maps match_results)) search_results" and
    returned: "sorted_by_score left = Inr returned"
    by blast
  have perm: "mset returned = mset left"
    using returned by (rule sorted_by_score_returns(1))
  have fields: "map (\<lambda>r. r\<lparr>score := None\<rparr>) left =
                map (\<lambda>r. r\<lparr>score := None\<rparr>) search_results"
    by (simp add: left set_score_other_fields)
  have "mset (map (\<lambda>r. r\<lparr>score := None\<rparr>) returned) =
        mset (map (\<lambda>r. r\<lparr>score := None\<rparr>) left)"
    using perm by (metis mset_map)
  with fields have perm_fields:
    "mset (map (\<lambda>r. r\<lparr>score := None\<rparr>) returned) =
     mset (map (\<lambda>r. r\<lparr>score := None\<rparr>) search_results)"
    by simp
  have desc: "\<exists>keys. map score returned = map Some keys \<and> sorted_wrt (\<lambda>a b. b \<le> a) keys"
    using returned by (rule sorted_by_score_returns(2))
  have stable: "\<forall>s. filter (\<lambda>r. score r = s) returned = filter (\<lambda>r. score r = s) left"
    using sorted_by_score_returns(3) [OF returned] by blast
  from perm fields perm_fields desc stable show ?thesis
    by blast
qed

lemma example_reranking:
  "fst (reranking example_env example_results ''who'') =
     (Inr [\<lparr>uuid = ''u2'', title = ''Second'', link = ''http://b'', snippet = ''two'',
            score = Some (9 / 10), content = None\<rparr>,
           \<lparr>uuid = ''u1'', title = ''First'', link = ''http://a'', snippet = ''one'',
            score = Some 0, content = None\<rparr>,
           \<lparr>uuid = ''u3'', title = ''Third'', link = ''http://c'', snippet = ''three'',
            score = Some 0, content = None\<rparr>],
      [\<lparr>uuid = ''u1'', title = ''First'', link = ''http://a'', snippet = ''one'',
        score = Some 0, content = None\<rparr>,
       \<lparr>uuid = ''u2'', title = ''Second'', link = ''http://b'', snippet = ''two'',
        score = Some (9 / 10), content = None\<rparr>,
       \<lparr>uuid = ''u3'', title = ''Third'', link = ''http://c'', snippet = ''three'',
        score = Some 0, content = None\<rparr>])"
  by (simp add: reranking_def example_env_def example_results_def example_matches_def
      score_maps_def set_score_def sorted_by_score_def sorted_reverse_def Let_def)

theorem reranking_sorted_permutation_witness:
  "fst (reranking example_env example_results ''who'') =
     (Inr [\<lparr>uuid = ''u2'', title = ''Second'', link = ''http://b'', snippet = ''two'',
            score = Some (9 / 10), content = None\<rparr>,
           \<lparr>uuid = ''u1'', title = ''First'', link = ''http://a'', snippet = ''one'',
            score = Some 0, content = None\<rparr>,
           \<lparr>uuid = ''u3'', title = ''Third'', link = ''http://c'', snippet = ''three'',
            score = Some 0, content = None\<rparr>],
      [\<lparr>uuid = ''u1'', title = ''First'', link = ''http://a'', snippet = ''one'',
        score = Some 0, content = None\<rparr>,
       \<lparr>uuid = ''u2'', title = ''Second'', link = ''http://b'', snippet = ''two'',
        score = Some (9 / 10), content = None\<rparr>,
       \<lparr>uuid = ''u3'', title = ''Third'', link = ''http://c'', snippet = ''three'',
        score = Some 0, content = None\<rparr>]) \<and>
   mset [\<lparr>uuid = ''u2'', title = ''Second'', link = ''http://b'', snippet = ''two'',
           score = Some (9 / 10), content = None\<rparr>,
         \<lparr>uuid = ''u1'', title = ''First'', link = ''http://a'', snippet = ''one'',
           score = Some 0, content = None\<rparr>,
         \<lparr>uuid = ''u3'', title = ''Third'', link = ''http://c'', snippet = ''three'',
           score = Some 0, content = None\<rparr>] =
   mset [\<lparr>uuid = ''u1'', title = ''First'', link = ''http://a'', snippet = ''one'',
           score = Some 0, content = None\<rparr>,
         \<lparr>uuid = ''u2'', title = ''Second'', link = ''http://b'', snippet = ''two'',
           score = Some (9 / 10), content = None\<rparr>,
         \<lparr>uuid = ''u3'', title = ''Third'', link = ''http://c'', snippet = ''three'',
           score = Some 0, content = None\<rparr>]"
  using reranking_sorted_permutation [OF example_reranking] example_reranking
  by blast

section \<open>Batch fetch\<close>












lemma example_batch:
  "fst (batch_fetch_urls example_env [''http://a'', ''http://b'']) =
     Inr [(''http://a'', []), (''http://b'', example_page)]"
  by (simp add: batch_fetch_urls_def fetch_markdown_def fetch_url_def example_env_def
      html_to_markdown_def re_sub_def blank_lines_pattern_literal example_page_def Let_def)


section \<open>Detail-Fetch: the join\<close>

lemma set_content_by_link_other_fields:
  "(set_content_by_link content_maps result)\<lparr>content := None\<rparr> = result\<lparr>content := None\<rparr>"
  by (simp add: set_content_by_link_def split: option.splits)

lemma set_content_by_link_fields:
  "link (set_content_by_link content_maps result) = link result"
  "title (set_content_by_link content_maps result) = title result"
  "snippet (set_content_by_link content_maps result) = snippet result"
  "score (set_content_by_link content_maps result) = score result"
  "uuid (set_content_by_link content_maps result) = uuid result"
  by (simp_all add: set_content_by_link_def split: option.splits)

lemma set_content_by_link_content:
  "content (set_content_by_link content_maps result) =
     (case content_maps (link result) of
        None \<Rightarrow> content result
      | Some page \<Rightarrow> Some page)"
  by (simp add: set_content_by_link_def split: option.splits)

lemma fetch_details_returns:
  assumes "fst (fetch_details env search_results min_score top_k) = (Inr returned, left)"
  shows "\<exists>urls details.
           select_urls search_results min_score top_k [] = Inr urls \<and>
           fst (batch_fetch_urls env urls) = Inr details \<and>
           returned = map (set_content_by_link (detail_content_maps details)) search_results \<and>
           left = returned"
  using assms
  by (auto simp: fetch_details_def Let_def split: prod.splits sum.splits)

text \<open>
  C5. When Detail-Fetch returns, it returns the caller's list itself, of the same length,
  with the links, titles, snippets, scores and identifiers in the same positions as
  before: no result is reordered or dropped. The only field written is \<open>content\<close>: a
  result whose link is in the fetched link-to-content map gets the mapped page, every
  other result keeps its content.
\<close>

theorem fetch_details_only_sets_content:
  assumes "fst (fetch_details env search_results min_score top_k) = (Inr returned, left)"
  shows "\<exists>urls details.
           select_urls search_results min_score top_k [] = Inr urls \<and>
           fst (batch_fetch_urls env urls) = Inr details \<and>
           left = returned \<and>
           length returned = length search_results \<and>
           map link returned = map link search_results \<and>
           map title returned = map title search_results \<and>
           map snippet returned = map snippet search_results \<and>
           map score returned = map score search_results \<and>
           map uuid returned = map uuid search_results \<and>
           map (\<lambda>r. r\<lparr>content := None\<rparr>) returned =
             map (\<lambda>r. r\<lparr>content := None\<rparr>) search_results \<and>
           (\<forall>i<length search_results.
              content (returned ! i) =
                (case detail_content_maps details (link (search_results ! i)) of
                   None \<Rightarrow> content (search_results ! i)
                 | Some page \<Rightarrow> Some page))"
proof -
  from fetch_details_returns [OF assms] obtain urls details where
    urls: "select_urls search_results min_score top_k [] = Inr urls" and
    batch: "fst (batch_fetch_urls env urls) = Inr details" and
    returned: "returned = map (set_content_by_link (detail_content_maps details)) search_results" and
    left: "left = returned"
    by blast
  have len: "length returned = length search_results"
    by (simp add: returned)
  have fields:
    "map link returned = map link search_results"
    "map title returned = map title search_results"
    "map snippet returned = map snippet search_results"
    "map score returned = map score search_results"
    "map uuid returned = map uuid search_results"
    by (simp_all add: returned set_content_by_link_fields)
  have others: "map (\<lambda>r. r\<lparr>content := None\<rparr>) returned =
                map (\<lambda>r. r\<lparr>content := None\<rparr>) search_results"
    by (simp add: returned set_content_by_link_other_fields)
  have contents: "\<forall>i<length search_results.
              content (returned ! i) =
                (case detail_content_maps details (link (search_results ! i)) of
                   None \<Rightarrow> content (search_results ! i)
                 | Some page \<Rightarrow> Some page)"
    by (simp add: returned set_content_by_link_content)
  from urls batch left len fields others contents show ?thesis
    by blast
qed

lemma example_fetch_details:
  "fst (fetch_details example_env example_results 0 1) = (Inr example_detailed, example_detailed)"
proof -
  have urls: "select_urls example_results 0 1 [] = Inr [''http://a'', ''http://b'']"
    by (simp add: example_results_def)
  obtain calls where batch:
    "batch_fetch_urls example_env [''http://a'', ''http://b''] =
       (Inr [(''http://a'', []), (''http://b'', example_page)], calls)"
    using example_batch by (cases "batch_fetch_urls example_env [''http://a'', ''http://b'']") simp
  have "map (set_content_by_link
               (detail_content_maps [(''http://a'', []), (''http://b'', example_page)]))
          example_results = example_detailed"
    by (simp add: example_results_def example_detailed_def detail_content_maps_def
        set_content_by_link_def)
  then show ?thesis
    by (simp add: fetch_details_def urls batch Let_def)
qed

theorem fetch_details_only_sets_content_witness:
  "fst (fetch_details example_env example_results 0 1) = (Inr example_detailed, example_detailed) \<and>
   length example_detailed = length example_results \<and>
   map link example_detailed = map link example_results \<and>
   map score example_detailed = map score example_results"
  using fetch_details_only_sets_content [OF example_fetch_details] example_fetch_details
  by blast

section \<open>Filter: the join\<close>

lemma set_content_by_uuid_other_fields:
  "(set_content_by_uuid content_maps result)\<lparr>content := None\<rparr> = result\<lparr>content := None\<rparr>"
  by (simp add: set_content_by_uuid_def split: option.splits)

lemma set_content_by_uuid_absent:
  "uuid result \<notin> dom content_maps \<Longrightarrow> set_content_by_uuid content_maps result = result"
  by (simp add: set_content_by_uuid_def domIff)

lemma filter_content_returns:
  assumes "fst (filter_content env search_results query filter_min_score filter_top_k) =
             (Inr returned, left)"
  shows "\<exists>index match_results.
           store_results env (filter has_content search_results) = Inr index \<and>
           query_results env index query filter_min_score filter_top_k = Inr match_results \<and>
           returned = map (set_content_by_uuid (filter_content_maps match_results)) search_results \<and>
           left = returned"
  using assms
  by (auto simp: filter_content_def Let_def split: sum.splits)

text \<open>
  C6. When Filter returns, it returns the caller's list itself, with the same length and
  the same order as the input (everything but \<open>content\<close> is unchanged position by
  position), and a result whose identifier is not in the accumulated content map is
  passed through unchanged, content and score included.
\<close>

theorem filter_content_keeps_every_result:
  assumes "fst (filter_content env search_results query filter_min_score filter_top_k) =
             (Inr returned, left)"
  shows "\<exists>index match_results.
           store_results env (filter has_content search_results) = Inr index \<and>
           query_results env index query filter_min_score filter_top_k = Inr match_results \<and>
           left = returned \<and>
           length returned = length search_results \<and>
           map (\<lambda>r. r\<lparr>content := None\<rparr>) returned =
             map (\<lambda>r. r\<lparr>content := None\<rparr>) search_results \<and>
           (\<forall>i<length search_results.
              uuid (search_results ! i) \<notin> dom (filter_content_maps match_results) \<longrightarrow>
                returned ! i = search_results ! i)"
proof -
  from filter_content_returns [OF assms] obtain index match_results where
    store: "store_results env (filter has_content search_results) = Inr index" and
    query: "query_results env index query filter_min_score filter_top_k = Inr match_results" and
    returned: "returned =
                 map (set_content_by_uuid (filter_content_maps match_results)) search_results" and
    left: "left = returned"
    by blast
  have len: "length returned = length search_results"
    by (simp add: returned)
  have others: "map (\<lambda>r. r\<lparr>content := None\<rparr>) returned =
                map (\<lambda>r. r\<lparr>content := None\<rparr>) search_results"
    by (simp add: returned set_content_by_uuid_other_fields)
  have unmatched: "\<forall>i<length search_results.
              uuid (search_results ! i) \<notin> dom (filter_content_maps match_results) \<longrightarrow>
                returned ! i = search_results ! i"
    by (simp add: returned set_content_by_uuid_absent)
  from store query left len others unmatched show ?thesis
    by blast
qed

lemma example_filter_content:
  "fst (filter_content example_env example_detailed ''who'' (8 / 10) 6) =
     (Inr (example_detailed[1 := (example_detailed ! 1)\<lparr>content := Some []\<rparr>]),
      example_detailed[1 := (example_detailed ! 1)\<lparr>content := Some []\<rparr>])"
  by (simp add: filter_content_maps_eq example_matches_def filter_content_def example_env_def
      example_detailed_def example_page_def has_content_def set_content_by_uuid_def Let_def)

theorem filter_content_keeps_every_result_witness:
  "fst (filter_content example_env example_detailed ''who'' (8 / 10) 6) =
     (Inr (example_detailed[1 := (example_detailed ! 1)\<lparr>content := Some []\<rparr>]),
      example_detailed[1 := (example_detailed ! 1)\<lparr>content := Some []\<rparr>]) \<and>
   length (example_detailed[1 := (example_detailed ! 1)\<lparr>content := Some []\<rparr>]) =
     length example_detailed \<and>
   uuid (example_detailed ! 2) \<notin> dom (filter_content_maps example_matches) \<and>
   example_detailed[1 := (example_detailed ! 1)\<lparr>content := Some []\<rparr>] ! 2 = example_detailed ! 2"
proof -
  from filter_content_keeps_every_result [OF example_filter_content]
  obtain index match_results where
    query: "query_results example_env index ''who'' (8 / 10) 6 = Inr match_results" and
    len: "length (example_detailed[1 := (example_detailed ! 1)\<lparr>content := Some []\<rparr>]) =
            length example_detailed" and
    unmatched: "\<forall>i<length example_detailed.
              uuid (example_detailed ! i) \<notin> dom (filter_content_maps match_results) \<longrightarrow>
                example_detailed[1 := (example_detailed ! 1)\<lparr>content := Some []\<rparr>] ! i =
                  example_detailed ! i"
    by blast
  from query have matches: "match_results = example_matches"
    by (simp add: example_env_def)
  have absent: "uuid (example_detailed ! 2) \<notin> dom (filter_content_maps example_matches)"
    by (simp add: filter_content_maps_eq example_matches_def example_detailed_def domIff)
  have third: "example_detailed[1 := (example_detailed ! 1)\<lparr>content := Some []\<rparr>] ! 2 =
                 example_detailed ! 2"
    using unmatched [rule_format, of 2] absent
    by (simp add: matches example_detailed_def)
  from example_filter_content len absent third show ?thesis
    by blast
qed

section \<open>The orchestrator\<close>

text \<open>
  C8. When the key taken from the authorization header differs from the configured
  secret, or the query is empty, the endpoint returns an error response and the list of
  collaborator calls is empty: nothing of Stage 1 or later runs. The key is checked
  first: with a wrong key the answer is \<^verbatim>\<open>Access Denied\<close> whether the query is empty or
  not, and \<^verbatim>\<open>invalid params\<close> is the answer to an empty query with the right key.
\<close>

theorem rag_search_rejects_before_search:
  assumes "Some (apiKey authorization) \<noteq> getenv_AUTH_API_KEY env \<or> req_query req = []"
  shows "rag_search env req authorization =
           (if Some (apiKey authorization) \<noteq> getenv_AUTH_API_KEY env
            then resp_err ''Access Denied'' else resp_err ''invalid params'', [])"
  using assms by (auto simp: rag_search_def Let_def)

lemma example_apiKey: "apiKey (Some ''Bearer secret'') = ''secret''"
  by (simp add: apiKey_def str_replace_def)

theorem rag_search_rejects_before_search_witness:
  "Some (apiKey (Some ''Bearer wrong'')) \<noteq> getenv_AUTH_API_KEY example_env \<and>
   rag_search example_env (example_req\<lparr>req_query := []\<rparr>) (Some ''Bearer wrong'') =
     (resp_err ''Access Denied'', []) \<and>
   req_query (example_req\<lparr>req_query := []\<rparr>) = [] \<and>
   rag_search example_env (example_req\<lparr>req_query := []\<rparr>) (Some ''Bearer secret'') =
     (resp_err ''invalid params'', [])"
proof -
  have wrong: "Some (apiKey (Some ''Bearer wrong'')) \<noteq> getenv_AUTH_API_KEY example_env"
    by (simp add: apiKey_def str_replace_def example_env_def)
  have right: "Some (apiKey (Some ''Bearer secret'')) = getenv_AUTH_API_KEY example_env"
    by (simp add: example_apiKey example_env_def)
  have empty: "req_query (example_req\<lparr>req_query := []\<rparr>) = []"
    by simp
  have denied: "rag_search example_env (example_req\<lparr>req_query := []\<rparr>) (Some ''Bearer wrong'') =
     (resp_err ''Access Denied'', [])"
    using rag_search_rejects_before_search
      [of "Some ''Bearer wrong''" example_env "example_req\<lparr>req_query := []\<rparr>"] wrong
    by simp
  have invalid: "rag_search example_env (example_req\<lparr>req_query := []\<rparr>) (Some ''Bearer secret'') =
     (resp_err ''invalid params'', [])"
    using rag_search_rejects_before_search
      [of "Some ''Bearer secret''" example_env "example_req\<lparr>req_query := []\<rparr>"] right empty
    by simp
  from wrong denied empty invalid show ?thesis
    by blast
qed

lemma reranking_raises:
  assumes "fst (reranking env search_results query) = (Inl e, left)"
  shows "(store_results env search_results = Inl e \<and> left = search_results) \<or>
         (\<exists>index. store_results env search_results = Inr index \<and>
            query_results env index query 0 (int (length search_results)) = Inl e \<and>
            left = search_results) \<or>
         (\<exists>index match_results. store_results env search_results = Inr index \<and>
            query_results env index query 0 (int (length search_results)) = Inr match_results \<and>
            left = map (set_score (score_maps match_results)) search_results \<and>
            sorted_by_score left = Inl e)"
  using assms
  by (auto simp: reranking_def Let_def split: sum.splits)

lemma sorted_by_score_raises:
  assumes "sorted_by_score xs = Inl e"
  shows "e = KeyError ''score'' \<and> (\<exists>x\<in>set xs. score x = None)"
  using assms score_keys_raises [of xs e]
  by (auto simp: sorted_by_score_def split: sum.splits)

text \<open>
  C9 as it was stated, "no result's score has been modified by the failed Rerank
  call", fails when the call raises in the sort. The search returns three results, the
  first without a score; the index matches the second, whose score is rewritten in place
  to 0.9; the sort then raises \<^verbatim>\<open>KeyError\<close> on the first, and the orchestrator goes on, and
  answers, with the rewritten score.
\<close>

theorem failed_reranking_changes_scores_counterexample:
  "req_is_reranking example_req \<and>
   fst (search example_env_unscored (req_query example_req) (req_search_n example_req)
          (req_locale example_req)) = Inr example_unscored \<and>
   fst (fst (reranking example_env_unscored example_unscored (req_query example_req))) =
     Inl (KeyError ''score'') \<and>
   fst (rag_search example_env_unscored example_req (Some ''Bearer secret'')) =
     resp_data
       [\<lparr>uuid = ''u1'', title = ''First'', link = ''http://a'', snippet = ''one'',
         score = None, content = None\<rparr>,
        \<lparr>uuid = ''u2'', title = ''Second'', link = ''http://b'', snippet = ''two'',
         score = Some (9 / 10), content = None\<rparr>,
        \<lparr>uuid = ''u3'', title = ''Third'', link = ''http://c'', snippet = ''three'',
         score = Some 0, content = None\<rparr>] \<and>
   [\<lparr>uuid = ''u1'', title = ''First'', link = ''http://a'', snippet = ''one'',
     score = None, content = None\<rparr>,
    \<lparr>uuid = ''u2'', title = ''Second'', link = ''http://b'', snippet = ''two'',
     score = Some (9 / 10), content = None\<rparr>,
    \<lparr>uuid = ''u3'', title = ''Third'', link = ''http://c'', snippet = ''three'',
     score = Some 0, content = None\<rparr>] \<noteq> example_unscored"
  by (simp add: rag_search_def search_def rerank_stage_def detail_stage_def filter_stage_def
      reranking_def sorted_by_score_def score_maps_def set_score_def
      example_env_unscored_def example_env_def example_unscored_def example_matches_def
      example_req_def example_apiKey Let_def)

text \<open>
  C9, as amended. With reranking enabled, when the call of \<^verbatim>\<open>reranking\<close> on the results of
  Stage 1 raises, the orchestrator goes on to the later stages with the caller's list as
  the call left it. That list has the results of Stage 1 in their order, with every field
  other than the score unchanged. When the exception comes from building or querying the
  index, the scores are unchanged too: the list is exactly the list of Stage 1. Otherwise
  the index answered, the scores of the matched results have been rewritten, and the
  exception is the \<^verbatim>\<open>KeyError\<close> of the sort on a result that still has no score.
\<close>

theorem failed_reranking_keeps_order_and_fields:
  assumes "req_is_reranking req"
    and "Some (apiKey authorization) = getenv_AUTH_API_KEY env"
    and "req_query req \<noteq> []"
    and "fst (search env (req_query req) (req_search_n req) (req_locale req)) = Inr results1"
    and "fst (reranking env results1 (req_query req)) = (Inl e, left)"
  shows "fst (rerank_stage env req results1) = left \<and>
         fst (rag_search env req authorization) =
           resp_data (fst (filter_stage env req (fst (detail_stage env req left)))) \<and>
         length left = length results1 \<and>
         map (\<lambda>r. r\<lparr>score := None\<rparr>) left = map (\<lambda>r. r\<lparr>score := None\<rparr>) results1 \<and>
         (store_results env results1 = Inl e \<or>
          (\<exists>index. store_results env results1 = Inr index \<and>
             query_results env index (req_query req) 0 (int (length results1)) = Inl e) \<longrightarrow>
            left = results1) \<and>
         (\<forall>index match_results.
            store_results env results1 = Inr index \<and>
            query_results env index (req_query req) 0 (int (length results1)) = Inr match_results \<longrightarrow>
              left = map (set_score (score_maps match_results)) results1 \<and>
              e = KeyError ''score'' \<and> (\<exists>r\<in>set left. score r = None))"
proof -
  have stage: "fst (rerank_stage env req results1) = left"
    using assms(1) assms(5)
    by (auto simp: rerank_stage_def split: prod.splits sum.splits)
  have "fst (rag_search env req authorization) =
          resp_data (fst (filter_stage env req
            (fst (detail_stage env req (fst (rerank_stage env req results1))))))"
    using assms(2) assms(3) assms(4)
    by (auto simp: rag_search_def Let_def split: prod.splits sum.splits)
  with stage have answer: "fst (rag_search env req authorization) =
           resp_data (fst (filter_stage env req (fst (detail_stage env req left))))"
    by simp
  from reranking_raises [OF assms(5)] have cases:
    "(store_results env results1 = Inl e \<and> left = results1) \<or>
     (\<exists>index. store_results env results1 = Inr index \<and>
        query_results env index (req_query req) 0 (int (length results1)) = Inl e \<and>
        left = results1) \<or>
     (\<exists>index match_results. store_results env results1 = Inr index \<and>
        query_results env index (req_query req) 0 (int (length results1)) = Inr match_results \<and>
        left = map (set_score (score_maps match_results)) results1 \<and>
        sorted_by_score left = Inl e)" .
  have merged: "left = results1 \<or> (\<exists>scores. left = map (set_score scores) results1)"
    using cases by blast
  have len: "length left = length results1"
    using merged by auto
  have fields: "map (\<lambda>r. r\<lparr>score := None\<rparr>) left = map (\<lambda>r. r\<lparr>score := None\<rparr>) results1"
    using merged by (auto simp: set_score_other_fields)
  have index_failed: "store_results env results1 = Inl e \<or>
          (\<exists>index. store_results env results1 = Inr index \<and>
             query_results env index (req_query req) 0 (int (length results1)) = Inl e) \<longrightarrow>
            left = results1"
    using cases by auto
  have sort_failed: "\<forall>index match_results.
            store_results env results1 = Inr index \<and>
            query_results env index (req_query req) 0 (int (length results1)) = Inr match_results \<longrightarrow>
              left = map (set_score (score_maps match_results)) results1 \<and>
              e = KeyError ''score'' \<and> (\<exists>r\<in>set left. score r = None)"
    using cases sorted_by_score_raises [of left e] by auto
  from stage answer len fields index_failed sort_failed show ?thesis
    by blast
qed

lemma example_reranking_no_index:
  "fst (reranking example_env_no_index example_results (req_query example_req)) =
     (Inl (Exception ''index unavailable''), example_results)"
  by (simp add: reranking_def example_env_no_index_def example_env_def)

lemma example_reranking_unscored:
  "fst (reranking example_env_unscored example_unscored (req_query example_req)) =
     (Inl (KeyError ''score''),
      [\<lparr>uuid = ''u1'', title = ''First'', link = ''http://a'', snippet = ''one'',
        score = None, content = None\<rparr>,
       \<lparr>uuid = ''u2'', title = ''Second'', link = ''http://b'', snippet = ''two'',
        score = Some (9 / 10), content = None\<rparr>,
       \<lparr>uuid = ''u3'', title = ''Third'', link = ''http://c'', snippet = ''three'',
        score = Some 0, content = None\<rparr>])"
  by (simp add: reranking_def sorted_by_score_def score_maps_def set_score_def
      example_env_unscored_def example_env_def example_unscored_def example_matches_def
      Let_def)

theorem failed_reranking_keeps_order_and_fields_witness:
  "req_is_reranking example_req \<and>
   Some (apiKey (Some ''Bearer secret'')) = getenv_AUTH_API_KEY example_env_no_index \<and>
   req_query example_req \<noteq> [] \<and>
   fst (search example_env_no_index (req_query example_req) (req_search_n example_req)
          (req_locale example_req)) = Inr example_results \<and>
   fst (reranking example_env_no_index example_results (req_query example_req)) =
     (Inl (Exception ''index unavailable''), example_results) \<and>
   store_results example_env_no_index example_results = Inl (Exception ''index unavailable'') \<and>
   fst (rerank_stage example_env_no_index example_req example_results) = example_results \<and>
   fst (rag_search example_env_no_index example_req (Some ''Bearer secret'')) =
     resp_data example_results \<and>
   Some (apiKey (Some ''Bearer secret'')) = getenv_AUTH_API_KEY example_env_unscored \<and>
   fst (search example_env_unscored (req_query example_req) (req_search_n example_req)
          (req_locale example_req)) = Inr example_unscored \<and>
   fst (reranking example_env_unscored example_unscored (req_query example_req)) =
     (Inl (KeyError ''score''),
      [\<lparr>uuid = ''u1'', title = ''First'', link = ''http://a'', snippet = ''one'',
        score = None, content = None\<rparr>,
       \<lparr>uuid = ''u2'', title = ''Second'', link = ''http://b'', snippet = ''two'',
        score = Some (9 / 10), content = None\<rparr>,
       \<lparr>uuid = ''u3'', title = ''Third'', link = ''http://c'', snippet = ''three'',
        score = Some 0, content = None\<rparr>]) \<and>
   map (\<lambda>r. r\<lparr>score := None\<rparr>)
     [\<lparr>uuid = ''u1'', title = ''First'', link = ''http://a'', snippet = ''one'',
       score = None, content = None\<rparr>,
      \<lparr>uuid = ''u2'', title = ''Second'', link = ''http://b'', snippet = ''two'',
       score = Some (9 / 10), content = None\<rparr>,
      \<lparr>uuid = ''u3'', title = ''Third'', link = ''http://c'', snippet = ''three'',
       score = Some 0, content = None\<rparr>] =
   map (\<lambda>r. r\<lparr>score := None\<rparr>) example_unscored"
proof -
  have flag: "req_is_reranking example_req"
    by (simp add: example_req_def)
  have key: "Some (apiKey (Some ''Bearer secret'')) = getenv_AUTH_API_KEY example_env_no_index"
    by (simp add: example_apiKey example_env_no_index_def example_env_def)
  have query: "req_query example_req \<noteq> []"
    by (simp add: example_req_def)
  have found: "fst (search example_env_no_index (req_query example_req) (req_search_n example_req)
          (req_locale example_req)) = Inr example_results"
    by (simp add: search_def example_env_no_index_def example_env_def Let_def)
  have store: "store_results example_env_no_index example_results =
                 Inl (Exception ''index unavailable'')"
    by (simp add: example_env_no_index_def)
  have later: "fst (filter_stage example_env_no_index example_req
                 (fst (detail_stage example_env_no_index example_req example_results))) =
               example_results"
    by (simp add: filter_stage_def detail_stage_def example_req_def)
  from failed_reranking_keeps_order_and_fields
         [OF flag key query found example_reranking_no_index] later
  have index_failure:
       "fst (rerank_stage example_env_no_index example_req example_results) = example_results \<and>
        fst (rag_search example_env_no_index example_req (Some ''Bearer secret'')) =
          resp_data example_results"
    by simp
  have key': "Some (apiKey (Some ''Bearer secret'')) = getenv_AUTH_API_KEY example_env_unscored"
    by (simp add: example_apiKey example_env_unscored_def example_env_def)
  have found': "fst (search example_env_unscored (req_query example_req) (req_search_n example_req)
          (req_locale example_req)) = Inr example_unscored"
    by (simp add: search_def example_env_unscored_def example_env_def Let_def)
  from failed_reranking_keeps_order_and_fields
         [OF flag key' query found' example_reranking_unscored]
  have sort_failure: "map (\<lambda>r. r\<lparr>score := None\<rparr>)
     [\<lparr>uuid = ''u1'', title = ''First'', link = ''http://a'', snippet = ''one'',
       score = None, content = None\<rparr>,
      \<lparr>uuid = ''u2'', title = ''Second'', link = ''http://b'', snippet = ''two'',
       score = Some (9 / 10), content = None\<rparr>,
      \<lparr>uuid = ''u3'', title = ''Third'', link = ''http://c'', snippet = ''three'',
       score = Some 0, content = None\<rparr>] =
   map (\<lambda>r. r\<lparr>score := None\<rparr>) example_unscored"
    by blast
  from flag key query found example_reranking_no_index store index_failure
    key' found' example_reranking_unscored sort_failure
  show ?thesis
    by blast
qed

text \<open>
  C10. When the environment variable \<^verbatim>\<open>AUTH_API_KEY\<close> is not set, the endpoint answers
  \<^verbatim>\<open>Access Denied\<close> to every request, whatever the authorization header is, a missing
  header included, and calls no collaborator: the key taken from the header is a string
  and never equals the absent secret.
\<close>

theorem rag_search_denies_without_secret:
  assumes "getenv_AUTH_API_KEY env = None"
  shows "rag_search env req authorization = (resp_err ''Access Denied'', [])"
  using assms by (simp add: rag_search_def Let_def)

theorem rag_search_denies_without_secret_witness:
  "getenv_AUTH_API_KEY (example_env\<lparr>getenv_AUTH_API_KEY := None\<rparr>) = None \<and>
   rag_search (example_env\<lparr>getenv_AUTH_API_KEY := None\<rparr>) example_req None =
     (resp_err ''Access Denied'', []) \<and>
   rag_search (example_env\<lparr>getenv_AUTH_API_KEY := None\<rparr>) example_req (Some ''Bearer secret'') =
     (resp_err ''Access Denied'', []) \<and>
   rag_search (example_env\<lparr>getenv_AUTH_API_KEY := None\<rparr>) example_req (Some []) =
     (resp_err ''Access Denied'', [])"
proof -
  have absent: "getenv_AUTH_API_KEY (example_env\<lparr>getenv_AUTH_API_KEY := None\<rparr>) = None"
    by simp
  from absent rag_search_denies_without_secret [OF absent] show ?thesis
    by blast
qed

end
